theory Spec2Isabelle
  imports Main
begin

section \<open>JavaScript values\<close>

text \<open>
  The handlers of the books controller receive and produce untyped JavaScript values: the
  request body, query parameters, documents of the store and the payloads handed to
  \<^verbatim>\<open>res.json\<close>. An object is its list of properties in enumeration order. Numbers are
  restricted to the integers, which is all the controller itself computes with.
\<close>

datatype jsval =
    JUndefined
  | JNull
  | JBool bool
  | JNum int
  | JStr string
  | JArr "jsval list"
  | JObj "(string \<times> jsval) list"

text \<open>Truthiness, as tested by \<^verbatim>\<open>!x\<close> and \<^verbatim>\<open>if (x)\<close>.\<close>

fun truthy :: "jsval \<Rightarrow> bool" where
  "truthy JUndefined = False"
| "truthy JNull = False"
| "truthy (JBool b) = b"
| "truthy (JNum n) = (n \<noteq> 0)"
| "truthy (JStr s) = (s \<noteq> [])"
| "truthy (JArr xs) = True"
| "truthy (JObj fs) = True"

text \<open>
  A number that may be absent (\<^verbatim>\<open>undefined\<close>, or the \<^verbatim>\<open>NaN\<close> that parsing a missing
  parameter gives): both are falsy, and so is zero. A negative number is truthy.
\<close>

definition truthy_num :: "int option \<Rightarrow> bool" where
  "truthy_num x = (case x of None \<Rightarrow> False | Some n \<Rightarrow> n \<noteq> 0)"

fun join_comma :: "string list \<Rightarrow> string" where
  "join_comma [] = []"
| "join_comma [s] = s"
| "join_comma (s # t # ss) = s @ CHR '','' # join_comma (t # ss)"

text \<open>
  The string coercion that a template literal \<^verbatim>\<open>`${x}`\<close> applies; \<open>None\<close> is the
  \<^verbatim>\<open>TypeError\<close> it throws. The coercion of an object asks the object for its \<^verbatim>\<open>toString\<close>
  and then its \<^verbatim>\<open>valueOf\<close>. An object without a property \<^verbatim>\<open>toString\<close> of its own inherits
  the one that answers \<^verbatim>\<open>[object Object]\<close>, whatever its properties. An own property
  \<^verbatim>\<open>toString\<close> hides the inherited one, and since no value of this type can be called,
  and \<^verbatim>\<open>valueOf\<close> (own or inherited) gives no primitive either, the coercion throws. An
  array is its elements joined by commas, \<^verbatim>\<open>null\<close> and \<^verbatim>\<open>undefined\<close> elements as the
  empty string, and throws when the coercion of an element does. How a number is printed
  is left to the built-in \<^verbatim>\<open>Number.prototype.toString\<close>, the first argument.
\<close>

fun ToString :: "(int \<Rightarrow> string) \<Rightarrow> jsval \<Rightarrow> string option" where
  "ToString num JUndefined = Some ''undefined''"
| "ToString num JNull = Some ''null''"
| "ToString num (JBool b) = Some (if b then ''true'' else ''false'')"
| "ToString num (JNum n) = Some (num n)"
| "ToString num (JStr s) = Some s"
| "ToString num (JArr xs) =
     map_option join_comma
       (those (map (\<lambda>x. if x = JUndefined \<or> x = JNull then Some [] else ToString num x) xs))"
| "ToString num (JObj fs) =
     (if ''toString'' \<in> set (map fst fs) then None else Some ''[object Object]'')"

section \<open>Errors and responses\<close>

text \<open>
  \<^verbatim>\<open>BadRequest\<close> and \<^verbatim>\<open>NotFound\<close> are the two errors the controller throws itself. A
  rejected call of the book service, a rejected call of the redis client, an exception
  of \<^verbatim>\<open>JSON.parse\<close> and the \<^verbatim>\<open>TypeError\<close> of a string coercion are errors as well.
\<close>

datatype error =
    BadRequest string
  | NotFound string
  | StoreError string
  | CacheError
  | SyntaxError
  | TypeError

type_synonym 'a result = "error + 'a"

text \<open>
  A handler ends in \<^verbatim>\<open>res.status(n).json(payload)\<close>, or in \<^verbatim>\<open>next(err)\<close> when the error is
  caught by its \<^verbatim>\<open>try\<close>, or, when an error is thrown outside the \<^verbatim>\<open>try\<close>, with its promise
  rejected: then neither \<^verbatim>\<open>res.json\<close> nor \<^verbatim>\<open>next\<close> is called.
\<close>

datatype response = Json nat jsval | Next error | Unhandled error

section \<open>The collaborators: book service, redis, JSON\<close>

datatype store_call =
    FindBooks "int option" "int option"
  | FindMostViewedBooks jsval
  | CreateBook jsval
  | UpdateBook string jsval
  | RemoveBook string

text \<open>
  The book service is not part of the controller. It is a parameter: each of its functions
  sees the calls made so far (the store is stateful) and either rejects with a message or
  resolves. \<^verbatim>\<open>findBooks\<close> resolves to \<^verbatim>\<open>{ results, totalBooks }\<close>, the others to a
  document, a list of documents or \<^verbatim>\<open>null\<close>.
\<close>

record BookService =
  findBooks :: "store_call list \<Rightarrow> int option \<Rightarrow> int option \<Rightarrow> string + (jsval list \<times> int)"
  findMostViewedBooks :: "store_call list \<Rightarrow> jsval \<Rightarrow> string + jsval"
  createBook :: "store_call list \<Rightarrow> jsval \<Rightarrow> string + jsval"
  updateBook :: "store_call list \<Rightarrow> string \<Rightarrow> jsval \<Rightarrow> string + jsval"
  removeBook :: "store_call list \<Rightarrow> string \<Rightarrow> string + jsval"

text \<open>
  The built-ins of the language the controller relies on are parameters as well: how a
  number is printed, \<^verbatim>\<open>JSON.stringify\<close>, and \<^verbatim>\<open>JSON.parse\<close>, which throws a
  \<^verbatim>\<open>SyntaxError\<close> on a text it does not accept.
\<close>

record JS =
  Number_toString :: "int \<Rightarrow> string"
  JSON_stringify :: "jsval \<Rightarrow> string"
  JSON_parse :: "string \<Rightarrow> jsval option"

text \<open>
  Modelled from the spec: the Cache interface (\<^verbatim>\<open>get\<close>, \<^verbatim>\<open>set\<close>, \<^verbatim>\<open>expire\<close>, \<^verbatim>\<open>delete\<close> on
  a key-value store with per-key expiration), which the controller reaches through the
  redis client of \<^verbatim>\<open>config/redis\<close>. An entry is a string and its remaining time to live,
  if any. \<^verbatim>\<open>set\<close> stores a value without expiration; \<^verbatim>\<open>expire\<close> on a present key sets its
  time to live, and removes the key when the time is not positive.
\<close>

record entry =
  data :: string
  ttl :: "int option"

datatype redis_cmd =
    Del string
  | Get string
  | Set string string
  | Expire string int

fun redis_apply :: "redis_cmd \<Rightarrow> (string \<rightharpoonup> entry) \<Rightarrow> (string \<rightharpoonup> entry)" where
  "redis_apply (Del k) m = m(k := None)"
| "redis_apply (Get k) m = m"
| "redis_apply (Set k v) m = m(k \<mapsto> \<lparr>data = v, ttl = None\<rparr>)"
| "redis_apply (Expire k n) m =
     (case m k of
        None \<Rightarrow> m
      | Some e \<Rightarrow> if n \<le> 0 then m(k := None) else m(k \<mapsto> e\<lparr>ttl := Some n\<rparr>))"

fun cmd_key :: "redis_cmd \<Rightarrow> string" where
  "cmd_key (Del k) = k"
| "cmd_key (Get k) = k"
| "cmd_key (Set k v) = k"
| "cmd_key (Expire k n) = k"

text \<open>
  The world a handler runs in: the contents of the cache, the commands sent to redis so
  far, the calls made to the book service so far, and a schedule of redis faults. Every
  command sent to redis takes the next flag of the schedule; when it is \<open>True\<close> the command
  is rejected and changes nothing. An exhausted schedule means redis answers.
\<close>

record world =
  cache :: "string \<rightharpoonup> entry"
  redis_log :: "redis_cmd list"
  store_log :: "store_call list"
  faults :: "bool list"

definition fails :: "bool list \<Rightarrow> bool" where
  "fails fs = (case fs of [] \<Rightarrow> False | f # _ \<Rightarrow> f)"

definition redis_fails :: "world \<Rightarrow> bool" where
  "redis_fails w = fails (faults w)"

text \<open>The next \<open>n\<close> commands sent to redis are answered.\<close>

primrec answered :: "nat \<Rightarrow> bool list \<Rightarrow> bool" where
  "answered 0 fs = True"
| "answered (Suc n) fs = (\<not> fails fs \<and> answered n (tl fs))"

definition redis_send :: "redis_cmd \<Rightarrow> world \<Rightarrow> world" where
  "redis_send c w =
     w\<lparr>cache := (if redis_fails w then cache w else redis_apply c (cache w)),
       redis_log := redis_log w @ [c],
       faults := tl (faults w)\<rparr>"

definition redis_reply :: "world \<Rightarrow> 'a \<Rightarrow> 'a result" where
  "redis_reply w v = (if redis_fails w then Inl CacheError else Inr v)"

text \<open>What redis answers to \<^verbatim>\<open>get\<close>: the value under the key, if there is one.\<close>

definition redis_get :: "world \<Rightarrow> string \<Rightarrow> string option result" where
  "redis_get w k = redis_reply w (map_option data (cache w k))"

definition store_reply :: "string + 'a \<Rightarrow> 'a result" where
  "store_reply r = (case r of Inl m \<Rightarrow> Inl (StoreError m) | Inr v \<Rightarrow> Inr v)"

definition store_send :: "store_call \<Rightarrow> world \<Rightarrow> world" where
  "store_send c w = w\<lparr>store_log := store_log w @ [c]\<rparr>"

section \<open>Asynchronous handlers\<close>

text \<open>
  An \<^verbatim>\<open>async\<close> handler is a tree: it either has finished with a value, or it has issued
  one call to a collaborator and continues from the outcome of that call. Between two
  nodes of one handler, other handlers may run.
\<close>

datatype 'a prog =
    Done 'a
  | Redis_del string "unit result \<Rightarrow> 'a prog"
  | Redis_get string "string option result \<Rightarrow> 'a prog"
  | Redis_set string string "unit result \<Rightarrow> 'a prog"
  | Redis_expire string int "unit result \<Rightarrow> 'a prog"
  | Await_findBooks "int option" "int option" "(jsval list \<times> int) result \<Rightarrow> 'a prog"
  | Await_findMostViewedBooks jsval "jsval result \<Rightarrow> 'a prog"
  | Await_createBook jsval "jsval result \<Rightarrow> 'a prog"
  | Await_updateBook string jsval "jsval result \<Rightarrow> 'a prog"
  | Await_removeBook string "jsval result \<Rightarrow> 'a prog"

text \<open>One call of a handler against the world: the rest of the handler and the new world.\<close>

fun step :: "BookService \<Rightarrow> 'a prog \<Rightarrow> world \<Rightarrow> 'a prog \<times> world" where
  "step S (Done a) w = (Done a, w)"
| "step S (Redis_del k cont) w = (cont (redis_reply w ()), redis_send (Del k) w)"
| "step S (Redis_get k cont) w = (cont (redis_get w k), redis_send (Get k) w)"
| "step S (Redis_set k v cont) w = (cont (redis_reply w ()), redis_send (Set k v) w)"
| "step S (Redis_expire k n cont) w = (cont (redis_reply w ()), redis_send (Expire k n) w)"
| "step S (Await_findBooks l off cont) w =
     (cont (store_reply (findBooks S (store_log w) l off)), store_send (FindBooks l off) w)"
| "step S (Await_findMostViewedBooks d cont) w =
     (cont (store_reply (findMostViewedBooks S (store_log w) d)), store_send (FindMostViewedBooks d) w)"
| "step S (Await_createBook b cont) w =
     (cont (store_reply (createBook S (store_log w) b)), store_send (CreateBook b) w)"
| "step S (Await_updateBook i b cont) w =
     (cont (store_reply (updateBook S (store_log w) i b)), store_send (UpdateBook i b) w)"
| "step S (Await_removeBook i cont) w =
     (cont (store_reply (removeBook S (store_log w) i)), store_send (RemoveBook i) w)"

primrec steps :: "nat \<Rightarrow> BookService \<Rightarrow> 'a prog \<times> world \<Rightarrow> 'a prog \<times> world" where
  "steps 0 S pw = pw"
| "steps (Suc n) S pw = steps n S (step S (fst pw) (snd pw))"

text \<open>
  A handler run alone from start to end: the sequential, one-request-at-a-time execution.
\<close>

primrec run :: "BookService \<Rightarrow> 'a prog \<Rightarrow> world \<Rightarrow> 'a \<times> world" where
  "run S (Done a) w = (a, w)"
| "run S (Redis_del k cont) w = run S (cont (redis_reply w ())) (redis_send (Del k) w)"
| "run S (Redis_get k cont) w = run S (cont (redis_get w k)) (redis_send (Get k) w)"
| "run S (Redis_set k v cont) w = run S (cont (redis_reply w ())) (redis_send (Set k v) w)"
| "run S (Redis_expire k n cont) w = run S (cont (redis_reply w ())) (redis_send (Expire k n) w)"
| "run S (Await_findBooks l off cont) w =
     run S (cont (store_reply (findBooks S (store_log w) l off))) (store_send (FindBooks l off) w)"
| "run S (Await_findMostViewedBooks d cont) w =
     run S (cont (store_reply (findMostViewedBooks S (store_log w) d)))
       (store_send (FindMostViewedBooks d) w)"
| "run S (Await_createBook b cont) w =
     run S (cont (store_reply (createBook S (store_log w) b))) (store_send (CreateBook b) w)"
| "run S (Await_updateBook i b cont) w =
     run S (cont (store_reply (updateBook S (store_log w) i b))) (store_send (UpdateBook i b) w)"
| "run S (Await_removeBook i cont) w =
     run S (cont (store_reply (removeBook S (store_log w) i))) (store_send (RemoveBook i) w)"

text \<open>
  Every \<^verbatim>\<open>await\<close> of the controller stands inside \<^verbatim>\<open>try { ... } catch (err) { return next(err) }\<close>:
  a rejected call ends the handler in \<^verbatim>\<open>next(err)\<close>.
\<close>

definition awaited :: "('r \<Rightarrow> response prog) \<Rightarrow> 'r result \<Rightarrow> response prog" where
  "awaited cont r = (case r of Inl e \<Rightarrow> Done (Next e) | Inr v \<Rightarrow> cont v)"

section \<open>The request\<close>

text \<open>
  \<^verbatim>\<open>req.pagination\<close> and \<^verbatim>\<open>req.calculatePagination\<close> are put on the request by a middleware
  that runs before the handler; the handler asserts their presence
  (\<^verbatim>\<open>req.pagination!\<close>). \<^verbatim>\<open>calculatePagination(totalBooks)\<close> stores its result in
  \<^verbatim>\<open>req.paginationInfo\<close>, which the handler reads next: here it is the function from the
  total to that value.
\<close>

record pagination =
  page :: "int option"
  limit :: "int option"
  offset :: "int option"

record request =
  body :: jsval
  query :: "string \<Rightarrow> jsval"
  params :: "string \<Rightarrow> string"
  pagination :: pagination
  calculatePagination :: "int \<Rightarrow> jsval"

section \<open>The handlers\<close>

definition msg_no_more_books :: string where
  "msg_no_more_books = ''No se encontraron m'' @ [CHR 0xE1] @ ''s libros''"

definition msg_detail :: string where
  "msg_detail = ''Par'' @ [CHR 0xE1] @ ''metro detail inv'' @ [CHR 0xE1] @ ''lido''"

definition msg_post :: string where
  "msg_post = ''Error al publicar, la solicitud est'' @ [CHR 0xE1] @ '' vacia''"

text \<open>
  The key \<^verbatim>\<open>`books_${body}`\<close>, built alike by getBooks and postBooks; \<open>None\<close> when the
  coercion of the body throws.
\<close>

definition cache_key :: "JS \<Rightarrow> jsval \<Rightarrow> string option" where
  "cache_key J b = map_option ((@) ''books_'') (ToString (Number_toString J) b)"

text \<open>
  The listing. The key is built first, before the \<^verbatim>\<open>try\<close>: when the coercion throws, the
  handler's promise is rejected and nothing else happens. Without a truthy limit and page
  the handler deletes the key and returns all the store gives. Otherwise it deletes the key
  (under a test that is true on this branch), reads the key, serves a truthy value it
  finds, and else asks the store, writes the response to the cache with \<^verbatim>\<open>set\<close> and
  \<^verbatim>\<open>expire\<close>, and only then looks at the number of results.
\<close>

definition getBooks :: "JS \<Rightarrow> request \<Rightarrow> response prog" where
  "getBooks J req =
     (case cache_key J (body req) of
        None \<Rightarrow> Done (Unhandled TypeError)
      | Some key \<Rightarrow>
     (let page = page (pagination req);
          limit = limit (pagination req);
          offset = offset (pagination req)
      in
        if \<not> truthy_num limit \<or> \<not> truthy_num page then
          Redis_del key (awaited (\<lambda>_.
          Await_findBooks limit offset (awaited (\<lambda>(results, totalBooks).
          Done (Json 200 (JObj [(''totalBooks'', JNum totalBooks), (''results'', JArr results)]))))))
        else
          (\<lambda>rest. if truthy_num limit \<and> truthy_num page
                   then Redis_del key (awaited (\<lambda>_. rest))
                   else rest)
          (Redis_get key (awaited (\<lambda>cachedData.
             let miss =
               Await_findBooks limit offset (awaited (\<lambda>(results, totalBooks).
                 let response =
                   JObj [(''info'', calculatePagination req totalBooks), (''results'', JArr results)]
                 in
                   Redis_set key (JSON_stringify J response) (awaited (\<lambda>_.
                   Redis_expire key 300 (awaited (\<lambda>_.
                   if length results < 1 then Done (Next (NotFound msg_no_more_books))
                   else Done (Json 200 response)))))))
             in
               case cachedData of
                 None \<Rightarrow> miss
               | Some s \<Rightarrow>
                   if s = [] then miss
                   else (case JSON_parse J s of
                           None \<Rightarrow> Done (Next SyntaxError)
                         | Some cachedResponse \<Rightarrow> Done (Json 200 cachedResponse)))))))"

definition getMostViewedBooks :: "request \<Rightarrow> response prog" where
  "getMostViewedBooks req =
     (let detail = query req ''detail'' in
        if \<not> truthy detail \<or> (detail \<noteq> JStr ''summary'' \<and> detail \<noteq> JStr ''full'') then
          Done (Next (BadRequest msg_detail))
        else
          Await_findMostViewedBooks detail (awaited (\<lambda>result.
          Done (Json 200 result))))"

text \<open>
  postBooks builds the key inside the \<^verbatim>\<open>try\<close>, after the store has answered and the
  record has been found truthy: a coercion that throws ends the handler in
  \<^verbatim>\<open>next(err)\<close>, with no command sent to redis and no 201. The \<^verbatim>\<open>expire\<close> is not awaited:
  the command is sent, and its outcome does not reach the handler.
\<close>

definition postBooks :: "JS \<Rightarrow> request \<Rightarrow> response prog" where
  "postBooks J req =
     (let body = body req in
        Await_createBook body (awaited (\<lambda>resultBook.
        if \<not> truthy resultBook then Done (Next (BadRequest msg_post))
        else
          (case cache_key J (request.body req) of
             None \<Rightarrow> Done (Next TypeError)
           | Some key \<Rightarrow>
               Redis_expire key 0 (\<lambda>outcome.
               Done (Json 201 resultBook))))))"

definition putBooks :: "request \<Rightarrow> response prog" where
  "putBooks req =
     (let id = params req ''id'';
          body = body req
      in
        Await_updateBook id body (awaited (\<lambda>result.
        if \<not> truthy result then Done (Next (BadRequest ''No se pudo actualizar''))
        else Done (Json 201 result))))"

definition deleteBook :: "request \<Rightarrow> response prog" where
  "deleteBook req =
     (let id = params req ''id'' in
        Await_removeBook id (awaited (\<lambda>book.
        if \<not> truthy book then Done (Next (NotFound ''Libro no encontrado''))
        else
          Done (Json 200 (JObj [(''success'', JObj [(''message'', JStr ''Libro eliminado'')])])))))"

section \<open>Concrete collaborators and requests\<close>

text \<open>
  The inputs the handlers are run on below: a world with an empty cache and a redis
  that answers, a world that holds an entry under the listing key, a book service that
  answers every listing with given results, and requests as the pagination middleware
  hands them over.
\<close>

definition world0 :: world where
  "world0 = \<lparr>cache = Map.empty, redis_log = [], store_log = [], faults = []\<rparr>"

definition stale_world :: world where
  "stale_world =
     world0\<lparr>cache := [''books_[object Object]'' \<mapsto> \<lparr>data = ''stale'', ttl = Some 120\<rparr>]\<rparr>"

text \<open>
  A book service that resolves every listing to the given results and total, returns the
  results as the most viewed books, creates any payload but the empty object, and knows no
  identifier.
\<close>

definition answering :: "jsval list \<Rightarrow> int \<Rightarrow> BookService" where
  "answering results totalBooks =
     \<lparr>findBooks = (\<lambda>h l off. Inr (results, totalBooks)),
      findMostViewedBooks = (\<lambda>h d. Inr (JArr results)),
      createBook = (\<lambda>h b. Inr (if b = JObj [] then JNull else b)),
      updateBook = (\<lambda>h i b. Inr JNull),
      removeBook = (\<lambda>h i. Inr JNull)\<rparr>"

text \<open>
  Modelled from the spec: the Pagination Calculator behind \<^verbatim>\<open>req.calculatePagination\<close>,
  whose middleware is not among the sources. \<open>offset = (page - 1) * limit\<close>, and
  \<open>totalPages\<close> is \<open>totalItems / limit\<close> rounded up, \<open>0\<close> for no items.
\<close>

definition paginationInfo :: "int \<Rightarrow> int \<Rightarrow> int \<Rightarrow> jsval" where
  "paginationInfo pg lm totalItems =
     JObj [(''totalItems'', JNum totalItems),
           (''itemsPerPage'', JNum lm),
           (''currentPage'', JNum pg),
           (''totalPages'', JNum (- ((- totalItems) div lm))),
           (''offset'', JNum ((pg - 1) * lm))]"

text \<open>A listing request with the given page, limit and body.\<close>

definition listing :: "int option \<Rightarrow> int option \<Rightarrow> jsval \<Rightarrow> request" where
  "listing p l b =
     \<lparr>body = b,
      query = (\<lambda>name. JUndefined),
      params = (\<lambda>name. []),
      pagination =
        \<lparr>page = p, limit = l,
         offset = (case (p, l) of (Some pg, Some lm) \<Rightarrow> Some ((pg - 1) * lm) | _ \<Rightarrow> None)\<rparr>,
      calculatePagination =
        (\<lambda>totalBooks. case (p, l) of
           (Some pg, Some lm) \<Rightarrow> paginationInfo pg lm totalBooks
         | _ \<Rightarrow> JUndefined)\<rparr>"

text \<open>A request for the most viewed books with the given \<^verbatim>\<open>detail\<close> query parameter.\<close>

definition detail_request :: "jsval \<Rightarrow> request" where
  "detail_request d =
     (listing None None (JObj []))\<lparr>query := (\<lambda>name. if name = ''detail'' then d else JUndefined)\<rparr>"

text \<open>
  Stand-ins for the built-ins, for running the handlers on the inputs above. Numbers are
  printed in decimal digits, as the language prints an integer below \<open>10\<^sup>2\<^sup>1\<close> that a double
  holds exactly. The codec writes JSON as \<^verbatim>\<open>JSON.stringify\<close> does, without white space, a
  property whose value is \<^verbatim>\<open>undefined\<close> left out and an \<^verbatim>\<open>undefined\<close> element written
  \<^verbatim>\<open>null\<close> (\<^verbatim>\<open>undefined\<close> on its own has no JSON text and is not among the inputs); in a
  string the quote, the backslash and the control characters are escaped.
  The reader accepts white space between tokens, the escapes of JSON with code units up
  to 255, and integers without a leading zero; a number with a fraction or an exponent is
  outside it. It takes fuel, one unit per nested value, and the length of the text is
  enough.
\<close>

fun digits :: "nat \<Rightarrow> string" where
  "digits n =
     (if n < 10 then [char_of (48 + n)]
      else digits (n div 10) @ [char_of (48 + n mod 10)])"

declare digits.simps [simp del]

definition decimal :: "int \<Rightarrow> string" where
  "decimal i = (if i < 0 then CHR ''-'' # digits (nat (- i)) else digits (nat i))"

definition hex_digit :: "nat \<Rightarrow> char" where
  "hex_digit n = (if n < 10 then char_of (48 + n) else char_of (87 + n))"

definition escape_char :: "char \<Rightarrow> string" where
  "escape_char c =
     (let n = (of_char c :: nat) in
        if c = CHR 0x22 then [CHR 0x5C, CHR 0x22]
        else if c = CHR 0x5C then [CHR 0x5C, CHR 0x5C]
        else if n = 8 then [CHR 0x5C, CHR ''b'']
        else if n = 9 then [CHR 0x5C, CHR ''t'']
        else if n = 10 then [CHR 0x5C, CHR ''n'']
        else if n = 12 then [CHR 0x5C, CHR ''f'']
        else if n = 13 then [CHR 0x5C, CHR ''r'']
        else if n < 32 then
          [CHR 0x5C, CHR ''u'', CHR ''0'', CHR ''0'', hex_digit (n div 16), hex_digit (n mod 16)]
        else [c])"

definition quote :: "string \<Rightarrow> string" where
  "quote s = CHR 0x22 # concat (map escape_char s) @ [CHR 0x22]"

fun json_text :: "jsval \<Rightarrow> string" where
  "json_text JUndefined = ''null''"
| "json_text JNull = ''null''"
| "json_text (JBool b) = (if b then ''true'' else ''false'')"
| "json_text (JNum n) = decimal n"
| "json_text (JStr s) = quote s"
| "json_text (JArr xs) = ''['' @ join_comma (map json_text xs) @ '']''"
| "json_text (JObj fs) =
     ''{'' @ join_comma (map (\<lambda>(k, v). quote k @ '':'' @ json_text v)
                           (filter (\<lambda>(k, v). v \<noteq> JUndefined) fs)) @ ''}''"

definition is_digit :: "char \<Rightarrow> bool" where
  "is_digit c = (48 \<le> (of_char c :: nat) \<and> (of_char c :: nat) \<le> 57)"

definition is_space :: "char \<Rightarrow> bool" where
  "is_space c = ((of_char c :: nat) = 32 \<or> (of_char c :: nat) = 9 \<or>
     (of_char c :: nat) = 10 \<or> (of_char c :: nat) = 13)"

definition hex_value :: "char \<Rightarrow> nat option" where
  "hex_value c =
     (let n = (of_char c :: nat) in
        if 48 \<le> n \<and> n \<le> 57 then Some (n - 48)
        else if 97 \<le> n \<and> n \<le> 102 then Some (n - 87)
        else if 65 \<le> n \<and> n \<le> 70 then Some (n - 55)
        else None)"

definition hex4 :: "string \<Rightarrow> nat option" where
  "hex4 s =
     (case map hex_value s of
        [Some a, Some b, Some c, Some d] \<Rightarrow> Some (((a * 16 + b) * 16 + c) * 16 + d)
      | _ \<Rightarrow> None)"

definition unescape :: "char \<Rightarrow> char option" where
  "unescape d =
     (if d = CHR 0x22 \<or> d = CHR 0x5C \<or> d = CHR ''/'' then Some d
      else if d = CHR ''b'' then Some (char_of (8 :: nat))
      else if d = CHR ''t'' then Some (char_of (9 :: nat))
      else if d = CHR ''n'' then Some (char_of (10 :: nat))
      else if d = CHR ''f'' then Some (char_of (12 :: nat))
      else if d = CHR ''r'' then Some (char_of (13 :: nat))
      else None)"

text \<open>The rest of a string after its opening quote: its content and what follows it.\<close>

fun read_string :: "string \<Rightarrow> (string \<times> string) option" where
  "read_string [] = None"
| "read_string (c # cs) =
     (if c = CHR 0x22 then Some ([], cs)
      else if (of_char c :: nat) < 32 then None
      else if c = CHR 0x5C then
        (case cs of
           [] \<Rightarrow> None
         | d # ds \<Rightarrow>
             if d = CHR ''u'' then
               (case hex4 (take 4 ds) of
                  None \<Rightarrow> None
                | Some n \<Rightarrow>
                    if 256 \<le> n then None
                    else map_option (apfst ((#) (char_of n))) (read_string (drop 4 ds)))
             else
               (case unescape d of
                  None \<Rightarrow> None
                | Some e \<Rightarrow> map_option (apfst ((#) e)) (read_string ds)))
      else map_option (apfst ((#) c)) (read_string cs))"

fun read_nat :: "nat \<Rightarrow> string \<Rightarrow> nat \<times> string" where
  "read_nat acc [] = (acc, [])"
| "read_nat acc (c # cs) =
     (if is_digit c then read_nat (10 * acc + (of_char c - 48)) cs else (acc, c # cs))"

text \<open>
  An integer without its sign: a single \<^verbatim>\<open>0\<close>, or digits that do not start with \<^verbatim>\<open>0\<close>;
  what follows must not continue the number.
\<close>

definition read_int :: "string \<Rightarrow> (nat \<times> string) option" where
  "read_int s =
     (case s of
        [] \<Rightarrow> None
      | c # r \<Rightarrow>
          if \<not> is_digit c then None
          else
            (case (if c = CHR ''0'' then (0, r) else read_nat 0 s) of
               (k, r') \<Rightarrow>
                 if r' \<noteq> [] \<and> (is_digit (hd r') \<or> hd r' = CHR ''.'' \<or>
                      hd r' = CHR ''e'' \<or> hd r' = CHR ''E'')
                 then None
                 else Some (k, r')))"

fun read_value :: "nat \<Rightarrow> string \<Rightarrow> (jsval \<times> string) option"
  and read_elems :: "nat \<Rightarrow> string \<Rightarrow> (jsval list \<times> string) option"
  and read_members :: "nat \<Rightarrow> string \<Rightarrow> ((string \<times> jsval) list \<times> string) option"
where
  "read_value 0 s = None"
| "read_value (Suc n) s =
     (case dropWhile is_space s of
        [] \<Rightarrow> None
      | c # r \<Rightarrow>
          if c = CHR ''['' then
            (if take 1 (dropWhile is_space r) = '']''
             then Some (JArr [], drop 1 (dropWhile is_space r))
             else map_option (apfst JArr) (read_elems n r))
          else if c = CHR ''{'' then
            (if take 1 (dropWhile is_space r) = ''}''
             then Some (JObj [], drop 1 (dropWhile is_space r))
             else map_option (apfst JObj) (read_members n r))
          else if c = CHR 0x22 then map_option (apfst JStr) (read_string r)
          else if c = CHR ''-'' then map_option (apfst (\<lambda>k. JNum (- int k))) (read_int r)
          else if is_digit c then map_option (apfst (\<lambda>k. JNum (int k))) (read_int (c # r))
          else if take 4 (c # r) = ''null'' then Some (JNull, drop 4 (c # r))
          else if take 4 (c # r) = ''true'' then Some (JBool True, drop 4 (c # r))
          else if take 5 (c # r) = ''false'' then Some (JBool False, drop 5 (c # r))
          else None)"
| "read_elems 0 s = None"
| "read_elems (Suc n) s =
     (case read_value n s of
        None \<Rightarrow> None
      | Some (v, r) \<Rightarrow>
          if take 1 (dropWhile is_space r) = '']'' then Some ([v], drop 1 (dropWhile is_space r))
          else if take 1 (dropWhile is_space r) = '','' then
            map_option (apfst ((#) v)) (read_elems n (drop 1 (dropWhile is_space r)))
          else None)"
| "read_members 0 s = None"
| "read_members (Suc n) s =
     (if take 1 (dropWhile is_space s) = [CHR 0x22] then
        (case read_string (drop 1 (dropWhile is_space s)) of
           None \<Rightarrow> None
         | Some (k, r) \<Rightarrow>
             if take 1 (dropWhile is_space r) = '':'' then
               (case read_value n (drop 1 (dropWhile is_space r)) of
                  None \<Rightarrow> None
                | Some (v, r') \<Rightarrow>
                    if take 1 (dropWhile is_space r') = ''}''
                    then Some ([(k, v)], drop 1 (dropWhile is_space r'))
                    else if take 1 (dropWhile is_space r') = '','' then
                      map_option (apfst ((#) (k, v)))
                        (read_members n (drop 1 (dropWhile is_space r')))
                    else None)
             else None)
      else None)"

definition json_read :: "string \<Rightarrow> jsval option" where
  "json_read s =
     (case read_value (Suc (length s)) s of
        Some (v, r) \<Rightarrow> if dropWhile is_space r = [] then Some v else None
      | None \<Rightarrow> None)"

definition compact_JS :: JS where
  "compact_JS = \<lparr>Number_toString = decimal, JSON_stringify = json_text, JSON_parse = json_read\<rparr>"

definition book1 :: jsval where
  "book1 = JObj [(''title'', JStr ''Rayuela''), (''year'', JNum 1963)]"

text \<open>A body with a property \<^verbatim>\<open>toString\<close> of its own, as JSON \<^verbatim>\<open>{"toString":"x"}\<close> gives.\<close>

definition odd_body :: jsval where
  "odd_body = JObj [(''toString'', JStr ''x'')]"

text \<open>
  Two requests for pages 1 and 2 of the same listing, A and B, in two interleavings. In the
  first, B sends its delete, then A runs from start to end, then B resumes. In the second,
  A has sent its delete and its read and is waiting for the store when B sends its
  delete; then A runs to its end, then B resumes.
\<close>

definition page1 :: request where
  "page1 = listing (Some 1) (Some 10) (JObj [])"

definition page2 :: request where
  "page2 = listing (Some 2) (Some 10) (JObj [])"

definition B_deletes :: "response prog \<times> world" where
  "B_deletes = step (answering [book1] 1) (getBooks compact_JS page2) world0"

definition A_runs :: "response \<times> world" where
  "A_runs = run (answering [book1] 1) (getBooks compact_JS page1) (snd B_deletes)"

definition A_waits :: "response prog \<times> world" where
  "A_waits = steps (Suc (Suc 0)) (answering [book1] 1) (getBooks compact_JS page1, world0)"

definition B_deletes_late :: "response prog \<times> world" where
  "B_deletes_late = step (answering [book1] 1) (getBooks compact_JS page2) (snd A_waits)"

definition A_finishes :: "response \<times> world" where
  "A_finishes = run (answering [book1] 1) (fst A_waits) (snd B_deletes_late)"

section \<open>Facts about the collaborators\<close>

lemma store_send_sel [simp]:
  "cache (store_send c w) = cache w"
  "redis_log (store_send c w) = redis_log w"
  "faults (store_send c w) = faults w"
  "store_log (store_send c w) = store_log w @ [c]"
  by (simp_all add: store_send_def)

lemma redis_send_sel [simp]:
  "cache (redis_send c w) = (if redis_fails w then cache w else redis_apply c (cache w))"
  "redis_log (redis_send c w) = redis_log w @ [c]"
  "store_log (redis_send c w) = store_log w"
  "faults (redis_send c w) = tl (faults w)"
  by (simp_all add: redis_send_def)

lemma redis_fails_after [simp]:
  "redis_fails (redis_send c w) = fails (tl (faults w))"
  "redis_fails (store_send d w) = fails (faults w)"
  by (simp_all add: redis_fails_def)

text \<open>Running a handler is taking its first call and running the rest.\<close>

lemma run_step: "run S p w = run S (fst (step S p w)) (snd (step S p w))"
  by (cases p) simp_all

lemmas handler_defs =
  Let_def awaited_def redis_reply_def redis_get_def store_reply_def redis_fails_def

lemmas fixture_defs =
  world0_def stale_world_def answering_def listing_def detail_request_def compact_JS_def
  truthy_num_def fails_def cache_key_def odd_body_def

section \<open>The string coercion\<close>

lemma those_map_Some: "those (map Some xs) = Some xs"
  by (induction xs) simp_all

text \<open>An array of strings is coerced to the strings joined by commas.\<close>

lemma ToString_strings: "ToString num (JArr (map JStr ss)) = Some (join_comma ss)"
proof -
  have "map (\<lambda>x. if x = JUndefined \<or> x = JNull then Some [] else ToString num x) (map JStr ss) =
      map Some ss"
    by simp
  then show ?thesis
    by (simp add: those_map_Some del: map_map)
qed

text \<open>
  A listing whose body cannot be coerced: the promise of the handler is rejected, and
  neither redis nor the store has been called.
\<close>

lemma getBooks_no_key:
  "cache_key J (body req) = None \<Longrightarrow> run S (getBooks J req) w = (Unhandled TypeError, w)"
  by (simp add: getBooks_def)

text \<open>
  The paginated path run on its own, with redis answering its four commands and the store
  resolving: the response, and what is left in the world.
\<close>

lemma paged_run:
  assumes "cache_key J (body req) = Some key"
    and "truthy_num (limit (pagination req))" "truthy_num (page (pagination req))"
    and "answered 4 (faults w)"
    and "findBooks S (store_log w) (limit (pagination req)) (offset (pagination req)) =
           Inr (results, totalBooks)"
  shows "fst (run S (getBooks J req) w) =
      (if results = [] then Next (NotFound msg_no_more_books)
       else Json 200 (JObj [(''info'', calculatePagination req totalBooks),
                            (''results'', JArr results)])) \<and>
    cache (snd (run S (getBooks J req) w)) key =
      Some \<lparr>data = JSON_stringify J (JObj [(''info'', calculatePagination req totalBooks),
                                           (''results'', JArr results)]),
            ttl = Some 300\<rparr> \<and>
    faults (snd (run S (getBooks J req) w)) = tl (tl (tl (tl (faults w))))"
  using assms
  by (auto simp add: getBooks_def handler_defs eval_nat_numeral)

section \<open>Listing: the unpaged path\<close>

text \<open>
  C1, as amended. For every listing request whose key can be built (the string coercion
  of its body does not throw) and in which page or limit is missing or zero, getBooks
  takes the unpaged path: the only command it sends to redis is the delete of the
  request's key, so it never writes to the cache; when redis answers the delete, the entry
  is gone, the store is queried with the request's limit and offset, and when the store
  resolves the response is \<^verbatim>\<open>{ totalBooks, results }\<close> with status 200.
\<close>

theorem getBooks_unpaged:
  assumes "cache_key J (body req) = Some key"
    and "\<not> truthy_num (limit (pagination req)) \<or> \<not> truthy_num (page (pagination req))"
  shows "redis_log (snd (run S (getBooks J req) w)) = redis_log w @ [Del key] \<and>
    cache (snd (run S (getBooks J req) w)) =
      (if redis_fails w then cache w else (cache w)(key := None)) \<and>
    (\<not> redis_fails w \<longrightarrow>
       store_log (snd (run S (getBooks J req) w)) =
         store_log w @ [FindBooks (limit (pagination req)) (offset (pagination req))]) \<and>
    (\<not> redis_fails w \<and>
     findBooks S (store_log w) (limit (pagination req)) (offset (pagination req)) =
       Inr (results, totalBooks) \<longrightarrow>
       fst (run S (getBooks J req) w) =
         Json 200 (JObj [(''totalBooks'', JNum totalBooks), (''results'', JArr results)]))"
  using assms
  by (auto simp add: getBooks_def handler_defs split: sum.split)

text \<open>
  A request without page and limit, on a cache that holds an entry under the key: the
  entry is deleted, nothing is written, and the books of the store are returned.
\<close>

theorem getBooks_unpaged_witness:
  "redis_log (snd (run (answering [book1] 1) (getBooks compact_JS (listing None None (JObj [])))
      stale_world)) = [Del ''books_[object Object]''] \<and>
   cache (snd (run (answering [book1] 1) (getBooks compact_JS (listing None None (JObj [])))
      stale_world)) ''books_[object Object]'' = None \<and>
   store_log (snd (run (answering [book1] 1) (getBooks compact_JS (listing None None (JObj [])))
      stale_world)) = [FindBooks None None] \<and>
   fst (run (answering [book1] 1) (getBooks compact_JS (listing None None (JObj [])))
      stale_world) = Json 200 (JObj [(''totalBooks'', JNum 1), (''results'', JArr [book1])])"
proof -
  have key: "cache_key compact_JS (body (listing None None (JObj []))) =
      Some ''books_[object Object]''"
    by (simp add: fixture_defs)
  have unpaged: "\<not> truthy_num (limit (pagination (listing None None (JObj [])))) \<or>
      \<not> truthy_num (page (pagination (listing None None (JObj []))))"
    by (simp add: fixture_defs)
  have ok: "\<not> redis_fails stale_world"
    by (simp add: fixture_defs redis_fails_def)
  have store: "findBooks (answering [book1] 1) (store_log stale_world)
      (limit (pagination (listing None None (JObj []))))
      (offset (pagination (listing None None (JObj [])))) = Inr ([book1], 1)"
    by (simp add: fixture_defs)
  from getBooks_unpaged [OF key unpaged, where S = "answering [book1] 1"
      and w = stale_world and results = "[book1]" and totalBooks = 1] ok store
  show ?thesis
    by (simp add: fixture_defs)
qed

text \<open>
  C1 as stated fails twice. A negative limit is not positive and yet truthy: with page 1
  and limit -5 the handler takes the paginated path, reads the cache, writes the response
  to it and answers with \<^verbatim>\<open>{ info, results }\<close>. And a request without page and limit
  whose body has a property \<^verbatim>\<open>toString\<close> of its own sends no delete and asks no store:
  the coercion of the body throws before anything else is done.
\<close>

theorem getBooks_unpaged_counterexample:
  "limit (pagination (listing (Some 1) (Some (- 5)) (JObj []))) = Some (- 5) \<and>
   redis_log (snd (run (answering [book1] 1)
      (getBooks compact_JS (listing (Some 1) (Some (- 5)) (JObj []))) world0)) =
     [Del ''books_[object Object]'', Get ''books_[object Object]'',
      Set ''books_[object Object]''
        (json_text (JObj [(''info'', paginationInfo 1 (- 5) 1), (''results'', JArr [book1])])),
      Expire ''books_[object Object]'' 300] \<and>
   cache (snd (run (answering [book1] 1)
      (getBooks compact_JS (listing (Some 1) (Some (- 5)) (JObj []))) world0))
      ''books_[object Object]'' =
     Some \<lparr>data = json_text (JObj [(''info'', paginationInfo 1 (- 5) 1), (''results'', JArr [book1])]),
           ttl = Some 300\<rparr> \<and>
   fst (run (answering [book1] 1)
      (getBooks compact_JS (listing (Some 1) (Some (- 5)) (JObj []))) world0) =
     Json 200 (JObj [(''info'', paginationInfo 1 (- 5) 1), (''results'', JArr [book1])]) \<and>
   run (answering [book1] 1) (getBooks compact_JS (listing None None odd_body)) stale_world =
     (Unhandled TypeError, stale_world)"
  by (simp add: getBooks_def handler_defs fixture_defs book1_def)

section \<open>Listing: the cache key\<close>

text \<open>
  C2, as amended. For every listing request whose body has a string coercion, the cache
  key used by getBooks is \<^verbatim>\<open>books_\<close> followed by that coercion: the first command
  getBooks sends is the delete of that key, and every command it sends to redis is on that
  key, whatever the pagination parameters. The key depends on the body only through the
  coercion, so bodies that differ can share a key: every object body without a property
  \<^verbatim>\<open>toString\<close> of its own gets the key \<^verbatim>\<open>books_[object Object]\<close> whatever its properties,
  pagination parameters among them, while an array of strings gets \<^verbatim>\<open>books_\<close> followed
  by the strings joined by commas.
\<close>

theorem getBooks_key_from_body:
  "(ToString (Number_toString J) (body req) = Some str \<longrightarrow>
      redis_log (snd (step S (getBooks J req) w)) = redis_log w @ [Del (''books_'' @ str)] \<and>
      (\<forall>c \<in> set (redis_log (snd (run S (getBooks J req) w))) - set (redis_log w).
         cmd_key c = ''books_'' @ str)) \<and>
   (body req = JObj fs \<and> ''toString'' \<notin> set (map fst fs) \<longrightarrow>
      redis_log (snd (step S (getBooks J req) w)) =
        redis_log w @ [Del ''books_[object Object]'']) \<and>
   (body req = JArr (map JStr ss) \<longrightarrow>
      redis_log (snd (step S (getBooks J req) w)) =
        redis_log w @ [Del (''books_'' @ join_comma ss)])"
proof -
  have first: "redis_log (snd (step S (getBooks J req) w)) = redis_log w @ [Del (''books_'' @ s)]"
    if "ToString (Number_toString J) (body req) = Some s" for s
    using that by (simp add: getBooks_def cache_key_def handler_defs)
  have every: "\<forall>c \<in> set (redis_log (snd (run S (getBooks J req) w))) - set (redis_log w).
      cmd_key c = ''books_'' @ s"
    if "ToString (Number_toString J) (body req) = Some s" for s
    using that
    by (auto simp add: getBooks_def cache_key_def handler_defs
        split: sum.splits option.splits if_splits)
  have object: "ToString (Number_toString J) (body req) = Some ''[object Object]''"
    if "body req = JObj fs" "''toString'' \<notin> set (map fst fs)"
    using that by simp
  have strings: "ToString (Number_toString J) (body req) = Some (join_comma ss)"
    if "body req = JArr (map JStr ss)"
    using that by (simp only: ToString_strings)
  have "redis_log (snd (step S (getBooks J req) w)) = redis_log w @ [Del ''books_[object Object]'']"
    if "body req = JObj fs" "''toString'' \<notin> set (map fst fs)"
    using first [OF object [OF that]] by simp
  moreover
  have "redis_log (snd (step S (getBooks J req) w)) =
      redis_log w @ [Del (''books_'' @ join_comma ss)]"
    if "body req = JArr (map JStr ss)"
    using first [OF strings [OF that]] .
  ultimately show ?thesis
    using first every by blast
qed

text \<open>
  Page 2 of a listing whose body is an object with a \<^verbatim>\<open>page\<close> property, and a listing whose
  body is an array of two strings.
\<close>

theorem getBooks_key_from_body_witness:
  "Set ''books_[object Object]''
      (json_text (JObj [(''info'', paginationInfo 2 10 1), (''results'', JArr [book1])]))
     \<in> set (redis_log (snd (run (answering [book1] 1)
          (getBooks compact_JS (listing (Some 2) (Some 10) (JObj [(''page'', JNum 2)]))) world0)))
       - set (redis_log world0) \<and>
   cmd_key (Set ''books_[object Object]''
      (json_text (JObj [(''info'', paginationInfo 2 10 1), (''results'', JArr [book1])]))) =
     ''books_'' @ ''[object Object]'' \<and>
   redis_log (snd (step (answering [book1] 1)
      (getBooks compact_JS (listing (Some 2) (Some 10) (JObj [(''page'', JNum 2)]))) world0)) =
     [Del ''books_[object Object]''] \<and>
   redis_log (snd (step (answering [book1] 1)
      (getBooks compact_JS (listing (Some 2) (Some 10)
         (JArr (map JStr [''Rayuela'', ''Ficciones''])))) world0)) =
     [Del ''books_Rayuela,Ficciones'']"
proof -
  have coercion: "ToString (Number_toString compact_JS)
      (body (listing (Some 2) (Some 10) (JObj [(''page'', JNum 2)]))) = Some ''[object Object]''"
    by (simp add: fixture_defs)
  have sent: "Set ''books_[object Object]''
      (json_text (JObj [(''info'', paginationInfo 2 10 1), (''results'', JArr [book1])]))
     \<in> set (redis_log (snd (run (answering [book1] 1)
          (getBooks compact_JS (listing (Some 2) (Some 10) (JObj [(''page'', JNum 2)]))) world0)))
       - set (redis_log world0)"
    by (simp add: getBooks_def handler_defs fixture_defs book1_def)
  have object: "body (listing (Some 2) (Some 10) (JObj [(''page'', JNum 2)])) =
      JObj [(''page'', JNum 2)] \<and> ''toString'' \<notin> set (map fst [(''page'', JNum (2 :: int))])"
    by (simp add: listing_def)
  have strings: "body (listing (Some 2) (Some 10) (JArr (map JStr [''Rayuela'', ''Ficciones'']))) =
      JArr (map JStr [''Rayuela'', ''Ficciones''])"
    by (simp add: listing_def)
  from getBooks_key_from_body [where J = compact_JS and S = "answering [book1] 1"
      and req = "listing (Some 2) (Some 10) (JObj [(''page'', JNum 2)])" and w = world0
      and str = "''[object Object]''" and fs = "[(''page'', JNum 2)]"] coercion object
  have "(\<forall>c \<in> set (redis_log (snd (run (answering [book1] 1)
          (getBooks compact_JS (listing (Some 2) (Some 10) (JObj [(''page'', JNum 2)]))) world0)))
       - set (redis_log world0). cmd_key c = ''books_'' @ ''[object Object]'') \<and>
      redis_log (snd (step (answering [book1] 1)
        (getBooks compact_JS (listing (Some 2) (Some 10) (JObj [(''page'', JNum 2)]))) world0)) =
        redis_log world0 @ [Del ''books_[object Object]'']"
    by blast
  moreover
  from getBooks_key_from_body [where J = compact_JS and S = "answering [book1] 1"
      and req = "listing (Some 2) (Some 10) (JArr (map JStr [''Rayuela'', ''Ficciones'']))"
      and w = world0 and ss = "[''Rayuela'', ''Ficciones'']"] strings
  have "redis_log (snd (step (answering [book1] 1)
      (getBooks compact_JS (listing (Some 2) (Some 10)
         (JArr (map JStr [''Rayuela'', ''Ficciones''])))) world0)) =
      redis_log world0 @ [Del (''books_'' @ join_comma [''Rayuela'', ''Ficciones''])]"
    by blast
  ultimately show ?thesis
    using sent by (simp add: world0_def)
qed

text \<open>
  C2 as stated fails: two requests whose bodies differ in content get the same key.
\<close>

theorem cache_key_collision_counterexample:
  "JObj [(''title'', JStr ''Rayuela'')] \<noteq> JObj [(''title'', JStr ''Ficciones'')] \<and>
   cache_key compact_JS (JObj [(''title'', JStr ''Rayuela'')]) =
     cache_key compact_JS (JObj [(''title'', JStr ''Ficciones'')]) \<and>
   redis_log (snd (run (answering [book1] 1)
      (getBooks compact_JS (listing None None (JObj [(''title'', JStr ''Rayuela'')]))) world0)) =
     [Del ''books_[object Object]''] \<and>
   redis_log (snd (run (answering [book1] 1)
      (getBooks compact_JS (listing None None (JObj [(''title'', JStr ''Ficciones'')]))) world0)) =
     [Del ''books_[object Object]'']"
  by (simp add: getBooks_def handler_defs fixture_defs)

section \<open>Listing: the paginated path\<close>

text \<open>
  C3, as amended. For every paginated listing request (page and limit both present and
  truthy) whose key can be built (the string coercion of its body does not throw), run on
  its own from any state of the cache, with redis answering: the first command getBooks
  sends is the delete of the request's key and the second is the read of that key; the
  read that follows the delete is answered with no value, whatever the cache held before;
  and the store is queried with the request's limit and offset.
\<close>

theorem paged_deletes_before_read:
  assumes "cache_key J (body req) = Some key"
    and "truthy_num (limit (pagination req))" "truthy_num (page (pagination req))"
    and "answered 2 (faults w)"
  shows "redis_log (snd (step S (getBooks J req) w)) = redis_log w @ [Del key] \<and>
    redis_get (snd (step S (getBooks J req) w)) key = Inr None \<and>
    take 2 (drop (length (redis_log w)) (redis_log (snd (run S (getBooks J req) w)))) =
      [Del key, Get key] \<and>
    store_log (snd (run S (getBooks J req) w)) =
      store_log w @ [FindBooks (limit (pagination req)) (offset (pagination req))]"
  using assms
  by (auto simp add: getBooks_def handler_defs eval_nat_numeral split: sum.split)

text \<open>
  Page 1 with limit 10 on a cache that holds an entry under the key: the entry is not
  served, the store is asked. The same request once more, on the cache the first one has
  just filled: the store is asked again.
\<close>

theorem paged_deletes_before_read_witness:
  "cache stale_world ''books_[object Object]'' = Some \<lparr>data = ''stale'', ttl = Some 120\<rparr> \<and>
   redis_get (snd (step (answering [book1] 1)
      (getBooks compact_JS (listing (Some 1) (Some 10) (JObj []))) stale_world))
      ''books_[object Object]'' = Inr None \<and>
   take 2 (redis_log (snd (run (answering [book1] 1)
      (getBooks compact_JS (listing (Some 1) (Some 10) (JObj []))) stale_world))) =
     [Del ''books_[object Object]'', Get ''books_[object Object]''] \<and>
   store_log (snd (run (answering [book1] 1)
      (getBooks compact_JS (listing (Some 1) (Some 10) (JObj []))) stale_world)) =
     [FindBooks (Some 10) (Some 0)] \<and>
   store_log (snd (run (answering [book1] 1)
      (getBooks compact_JS (listing (Some 1) (Some 10) (JObj [])))
      (snd (run (answering [book1] 1)
         (getBooks compact_JS (listing (Some 1) (Some 10) (JObj []))) stale_world)))) =
     [FindBooks (Some 10) (Some 0), FindBooks (Some 10) (Some 0)]"
proof -
  have key: "cache_key compact_JS (body (listing (Some 1) (Some 10) (JObj []))) =
      Some ''books_[object Object]''"
    by (simp add: fixture_defs)
  have paged: "truthy_num (limit (pagination (listing (Some 1) (Some 10) (JObj []))))"
    "truthy_num (page (pagination (listing (Some 1) (Some 10) (JObj []))))"
    by (simp_all add: fixture_defs)
  have ok: "answered 2 (faults stale_world)"
    by (simp add: fixture_defs eval_nat_numeral)
  have store: "findBooks (answering [book1] 1) (store_log stale_world)
      (limit (pagination (listing (Some 1) (Some 10) (JObj []))))
      (offset (pagination (listing (Some 1) (Some 10) (JObj [])))) = Inr ([book1], 1)"
    by (simp add: fixture_defs)
  have ok4: "answered 4 (faults stale_world)"
    by (simp add: fixture_defs eval_nat_numeral)
  from paged_run [OF key paged ok4 store]
  have again: "answered 2 (faults (snd (run (answering [book1] 1)
      (getBooks compact_JS (listing (Some 1) (Some 10) (JObj []))) stale_world)))"
    by (simp add: fixture_defs eval_nat_numeral)
  from paged_deletes_before_read [OF key paged ok, where S = "answering [book1] 1"]
    paged_deletes_before_read [OF key paged again, where S = "answering [book1] 1"]
  show ?thesis
    by (simp add: fixture_defs)
qed

text \<open>
  C3 as stated fails for a paginated request whose body has a property \<^verbatim>\<open>toString\<close> of
  its own: the coercion of the body throws before the key exists, so with redis answering
  and an entry in the cache the handler sends no delete and no read, asks no store and
  leaves the world as it was.
\<close>

theorem paged_no_key_counterexample:
  "truthy_num (limit (pagination (listing (Some 1) (Some 10) odd_body))) \<and>
   truthy_num (page (pagination (listing (Some 1) (Some 10) odd_body))) \<and>
   answered 2 (faults stale_world) \<and>
   run (answering [book1] 1) (getBooks compact_JS (listing (Some 1) (Some 10) odd_body))
     stale_world = (Unhandled TypeError, stale_world) \<and>
   redis_log stale_world = [] \<and> store_log stale_world = []"
  by (simp add: getBooks_def handler_defs fixture_defs eval_nat_numeral)

text \<open>
  C4. For every paginated listing request whose store fetch returns an empty results
  list (the store has been asked, and its answer is no results), getBooks does not answer
  with a page: it ends in \<^verbatim>\<open>next(err)\<close>, and the error is NotFound whenever redis answers
  the four commands of the path (a rejected \<^verbatim>\<open>set\<close> or \<^verbatim>\<open>expire\<close> ends the request with
  the error of the cache instead). In particular no books at all with page 1 and limit 10
  yields NotFound.
\<close>

theorem empty_page_is_NotFound:
  assumes "truthy_num (limit (pagination req))" "truthy_num (page (pagination req))"
    and "store_log (snd (run S (getBooks J req) w)) =
           store_log w @ [FindBooks (limit (pagination req)) (offset (pagination req))]"
    and "findBooks S (store_log w) (limit (pagination req)) (offset (pagination req)) =
           Inr ([], totalBooks)"
  shows "fst (run S (getBooks J req) w) =
    Next (if answered 4 (faults w) then NotFound msg_no_more_books else CacheError)"
  using assms
  by (auto simp add: getBooks_def handler_defs eval_nat_numeral split: option.splits if_splits)

theorem empty_page_is_NotFound_witness:
  "calculatePagination (listing (Some 1) (Some 10) (JObj [])) 0 =
     JObj [(''totalItems'', JNum 0), (''itemsPerPage'', JNum 10), (''currentPage'', JNum 1),
           (''totalPages'', JNum 0), (''offset'', JNum 0)] \<and>
   store_log (snd (run (answering [] 0)
      (getBooks compact_JS (listing (Some 1) (Some 10) (JObj []))) world0)) =
     [FindBooks (Some 10) (Some 0)] \<and>
   fst (run (answering [] 0) (getBooks compact_JS (listing (Some 1) (Some 10) (JObj []))) world0) =
     Next (NotFound msg_no_more_books)"
proof -
  have paged: "truthy_num (limit (pagination (listing (Some 1) (Some 10) (JObj []))))"
    "truthy_num (page (pagination (listing (Some 1) (Some 10) (JObj []))))"
    by (simp_all add: fixture_defs)
  have fetched: "store_log (snd (run (answering [] 0)
      (getBooks compact_JS (listing (Some 1) (Some 10) (JObj []))) world0)) =
      store_log world0 @ [FindBooks (limit (pagination (listing (Some 1) (Some 10) (JObj []))))
        (offset (pagination (listing (Some 1) (Some 10) (JObj []))))]"
    by (simp add: getBooks_def handler_defs fixture_defs)
  have store: "findBooks (answering [] 0) (store_log world0)
      (limit (pagination (listing (Some 1) (Some 10) (JObj []))))
      (offset (pagination (listing (Some 1) (Some 10) (JObj [])))) = Inr ([], 0)"
    by (simp add: fixture_defs)
  have ok: "answered 4 (faults world0)"
    by (simp add: fixture_defs eval_nat_numeral)
  from empty_page_is_NotFound [OF paged fetched store] ok fetched
  show ?thesis
    by (simp add: listing_def paginationInfo_def world0_def)
qed

text \<open>
  C5. For every paginated listing request that misses the cache (so it has built its
  key, \<open>key\<close> below, and runs on its own) and is answered by the store, getBooks builds the
  response \<^verbatim>\<open>{ info, results }\<close> and sends four commands to redis: the delete, the read, a
  \<^verbatim>\<open>set\<close> of the key to the serialization of the response, and then a separate \<^verbatim>\<open>expire\<close>
  of the key with 300 seconds. When redis answers all four, the cache holds the
  serialization under the key with a time to live of 300. The two writes are not atomic:
  when the \<^verbatim>\<open>set\<close> is answered and the \<^verbatim>\<open>expire\<close> is rejected, the entry stays without
  any expiration.
\<close>

theorem paged_miss_populates_cache:
  assumes "cache_key J (body req) = Some key"
    and "truthy_num (limit (pagination req))" "truthy_num (page (pagination req))"
    and "findBooks S (store_log w) (limit (pagination req)) (offset (pagination req)) =
           Inr (results, totalBooks)"
    and "response = JObj [(''info'', calculatePagination req totalBooks), (''results'', JArr results)]"
  shows "(answered 4 (faults w) \<longrightarrow>
       redis_log (snd (run S (getBooks J req) w)) =
         redis_log w @ [Del key, Get key, Set key (JSON_stringify J response), Expire key 300] \<and>
       cache (snd (run S (getBooks J req) w)) key =
         Some \<lparr>data = JSON_stringify J response, ttl = Some 300\<rparr>) \<and>
    (answered 3 (faults w) \<and> \<not> answered 4 (faults w) \<longrightarrow>
       redis_log (snd (run S (getBooks J req) w)) =
         redis_log w @ [Del key, Get key, Set key (JSON_stringify J response), Expire key 300] \<and>
       cache (snd (run S (getBooks J req) w)) key =
         Some \<lparr>data = JSON_stringify J response, ttl = None\<rparr>)"
  using assms
  by (auto simp add: getBooks_def handler_defs eval_nat_numeral)

text \<open>
  Page 1 with limit 10 over one book: once with redis answering, once with the fourth
  command, the \<^verbatim>\<open>expire\<close>, rejected.
\<close>

theorem paged_miss_populates_cache_witness:
  "redis_log (snd (run (answering [book1] 1)
      (getBooks compact_JS (listing (Some 1) (Some 10) (JObj []))) world0)) =
     [Del ''books_[object Object]'', Get ''books_[object Object]'',
      Set ''books_[object Object]''
        (json_text (JObj [(''info'', paginationInfo 1 10 1), (''results'', JArr [book1])])),
      Expire ''books_[object Object]'' 300] \<and>
   cache (snd (run (answering [book1] 1)
      (getBooks compact_JS (listing (Some 1) (Some 10) (JObj []))) world0))
      ''books_[object Object]'' =
     Some \<lparr>data = json_text (JObj [(''info'', paginationInfo 1 10 1), (''results'', JArr [book1])]),
           ttl = Some 300\<rparr> \<and>
   cache (snd (run (answering [book1] 1)
      (getBooks compact_JS (listing (Some 1) (Some 10) (JObj [])))
      (world0\<lparr>faults := [False, False, False, True]\<rparr>)))
      ''books_[object Object]'' =
     Some \<lparr>data = json_text (JObj [(''info'', paginationInfo 1 10 1), (''results'', JArr [book1])]),
           ttl = None\<rparr>"
proof -
  have key: "cache_key compact_JS (body (listing (Some 1) (Some 10) (JObj []))) =
      Some ''books_[object Object]''"
    by (simp add: fixture_defs)
  have paged: "truthy_num (limit (pagination (listing (Some 1) (Some 10) (JObj []))))"
    "truthy_num (page (pagination (listing (Some 1) (Some 10) (JObj []))))"
    by (simp_all add: fixture_defs)
  have store: "findBooks (answering [book1] 1) (store_log w)
      (limit (pagination (listing (Some 1) (Some 10) (JObj []))))
      (offset (pagination (listing (Some 1) (Some 10) (JObj [])))) = Inr ([book1], 1)" for w
    by (simp add: fixture_defs)
  have ok: "answered 4 (faults world0)"
    by (simp add: fixture_defs eval_nat_numeral)
  have late: "answered 3 (faults (world0\<lparr>faults := [False, False, False, True]\<rparr>)) \<and>
      \<not> answered 4 (faults (world0\<lparr>faults := [False, False, False, True]\<rparr>))"
    by (simp add: fixture_defs eval_nat_numeral)
  from paged_miss_populates_cache [OF key paged store refl, where w = world0] ok
    paged_miss_populates_cache [OF key paged store refl,
      where w = "world0\<lparr>faults := [False, False, False, True]\<rparr>"] late
  show ?thesis
    by (simp add: fixture_defs)
qed

section \<open>Most viewed books\<close>

text \<open>
  C6. For every request for the most viewed books: when the \<^verbatim>\<open>detail\<close> parameter is missing
  or is any value other than exactly the string \<^verbatim>\<open>summary\<close> or the string \<^verbatim>\<open>full\<close>, the
  request ends in BadRequest and the store is not called; when it is exactly one of the
  two, the store is called once, with that value, and its answer is the response.
\<close>

theorem mostViewed_detail:
  "(query req ''detail'' \<noteq> JStr ''summary'' \<and> query req ''detail'' \<noteq> JStr ''full'' \<longrightarrow>
      run S (getMostViewedBooks req) w = (Next (BadRequest msg_detail), w)) \<and>
   (query req ''detail'' = JStr ''summary'' \<or> query req ''detail'' = JStr ''full'' \<longrightarrow>
      store_log (snd (run S (getMostViewedBooks req) w)) =
        store_log w @ [FindMostViewedBooks (query req ''detail'')] \<and>
      fst (run S (getMostViewedBooks req) w) =
        (case findMostViewedBooks S (store_log w) (query req ''detail'') of
           Inl m \<Rightarrow> Next (StoreError m)
         | Inr result \<Rightarrow> Json 200 result))"
  by (auto simp add: getMostViewedBooks_def handler_defs split: sum.split)

theorem mostViewed_detail_witness:
  "run (answering [book1] 1) (getMostViewedBooks (detail_request (JStr ''other''))) world0 =
     (Next (BadRequest msg_detail), world0) \<and>
   run (answering [book1] 1) (getMostViewedBooks (detail_request JUndefined)) world0 =
     (Next (BadRequest msg_detail), world0) \<and>
   store_log (snd (run (answering [book1] 1)
      (getMostViewedBooks (detail_request (JStr ''summary''))) world0)) =
     [FindMostViewedBooks (JStr ''summary'')] \<and>
   fst (run (answering [book1] 1)
      (getMostViewedBooks (detail_request (JStr ''summary''))) world0) = Json 200 (JArr [book1])"
proof -
  have other: "query (detail_request (JStr ''other'')) ''detail'' \<noteq> JStr ''summary'' \<and>
      query (detail_request (JStr ''other'')) ''detail'' \<noteq> JStr ''full''"
    by (simp add: fixture_defs)
  have missing: "query (detail_request JUndefined) ''detail'' \<noteq> JStr ''summary'' \<and>
      query (detail_request JUndefined) ''detail'' \<noteq> JStr ''full''"
    by (simp add: fixture_defs)
  have summary: "query (detail_request (JStr ''summary'')) ''detail'' = JStr ''summary''"
    by (simp add: fixture_defs)
  from mostViewed_detail [where req = "detail_request (JStr ''other'')"
      and S = "answering [book1] 1" and w = world0] other
    mostViewed_detail [where req = "detail_request JUndefined"
      and S = "answering [book1] 1" and w = world0] missing
    mostViewed_detail [where req = "detail_request (JStr ''summary'')"
      and S = "answering [book1] 1" and w = world0] summary
  show ?thesis
    by (simp add: answering_def world0_def)
qed

section \<open>Write operations\<close>

text \<open>
  C7. An update request and a delete request perform no cache operation: whatever the
  store answers (a document, nothing, or a rejection), the contents of the cache and the
  list of commands sent to redis are the same after the handler as before it.
\<close>

theorem write_ops_no_cache_operation:
  "cache (snd (run S (putBooks req) w)) = cache w \<and>
   redis_log (snd (run S (putBooks req) w)) = redis_log w \<and>
   cache (snd (run S (deleteBook req) w)) = cache w \<and>
   redis_log (snd (run S (deleteBook req) w)) = redis_log w"
  by (simp add: putBooks_def deleteBook_def awaited_def Let_def split: sum.split)

text \<open>
  C8, as amended. For every create request: when the store returns a created record and
  the key can be built from the body of the create request itself (the string coercion of
  that body does not throw), the handler sends one command to redis, an \<^verbatim>\<open>expire\<close> with
  time 0 on that key, and answers with the created record and status 201. The key is
  \<^verbatim>\<open>books_\<close> followed by the coercion of the create body: \<^verbatim>\<open>books_[object Object]\<close> for an
  object without a property \<^verbatim>\<open>toString\<close> of its own, \<^verbatim>\<open>books_\<close> and the strings joined by
  commas for an array of strings. When the store returns nothing, the request ends in
  BadRequest, no command is sent to redis and the cache is unchanged.
\<close>

theorem postBooks_expire:
  "(createBook S (store_log w) (body req) = Inr resultBook \<and> truthy resultBook \<and>
    ToString (Number_toString J) (body req) = Some str \<longrightarrow>
      fst (run S (postBooks J req) w) = Json 201 resultBook \<and>
      redis_log (snd (run S (postBooks J req) w)) = redis_log w @ [Expire (''books_'' @ str) 0]) \<and>
   (createBook S (store_log w) (body req) = Inr resultBook \<and> truthy resultBook \<and>
    body req = JObj fs \<and> ''toString'' \<notin> set (map fst fs) \<longrightarrow>
      redis_log (snd (run S (postBooks J req) w)) =
        redis_log w @ [Expire ''books_[object Object]'' 0]) \<and>
   (createBook S (store_log w) (body req) = Inr resultBook \<and> truthy resultBook \<and>
    body req = JArr (map JStr ss) \<longrightarrow>
      redis_log (snd (run S (postBooks J req) w)) =
        redis_log w @ [Expire (''books_'' @ join_comma ss) 0]) \<and>
   (createBook S (store_log w) (body req) = Inr resultBook \<and> \<not> truthy resultBook \<longrightarrow>
      fst (run S (postBooks J req) w) = Next (BadRequest msg_post) \<and>
      redis_log (snd (run S (postBooks J req) w)) = redis_log w \<and>
      cache (snd (run S (postBooks J req) w)) = cache w)"
proof -
  have created: "fst (run S (postBooks J req) w) = Json 201 resultBook \<and>
      redis_log (snd (run S (postBooks J req) w)) = redis_log w @ [Expire (''books_'' @ s) 0]"
    if "createBook S (store_log w) (body req) = Inr resultBook" "truthy resultBook"
      "ToString (Number_toString J) (body req) = Some s" for s
    using that by (simp add: postBooks_def cache_key_def handler_defs)
  have object: "ToString (Number_toString J) (body req) = Some ''[object Object]''"
    if "body req = JObj fs" "''toString'' \<notin> set (map fst fs)"
    using that by simp
  have strings: "ToString (Number_toString J) (body req) = Some (join_comma ss)"
    if "body req = JArr (map JStr ss)"
    using that by (simp only: ToString_strings)
  have "redis_log (snd (run S (postBooks J req) w)) =
      redis_log w @ [Expire ''books_[object Object]'' 0]"
    if "createBook S (store_log w) (body req) = Inr resultBook" "truthy resultBook"
      "body req = JObj fs" "''toString'' \<notin> set (map fst fs)"
    using created [OF that(1,2) object [OF that(3,4)]] by simp
  moreover
  have "redis_log (snd (run S (postBooks J req) w)) =
      redis_log w @ [Expire (''books_'' @ join_comma ss) 0]"
    if "createBook S (store_log w) (body req) = Inr resultBook" "truthy resultBook"
      "body req = JArr (map JStr ss)"
    using created [OF that(1,2) strings [OF that(3)]] by simp
  moreover
  have "fst (run S (postBooks J req) w) = Next (BadRequest msg_post) \<and>
      redis_log (snd (run S (postBooks J req) w)) = redis_log w \<and>
      cache (snd (run S (postBooks J req) w)) = cache w"
    if "createBook S (store_log w) (body req) = Inr resultBook" "\<not> truthy resultBook"
    using that by (simp add: postBooks_def handler_defs)
  ultimately show ?thesis
    using created by blast
qed

text \<open>
  A book created from an object, a payload that is an array of two strings, and the empty
  payload that the store turns down.
\<close>

theorem postBooks_expire_witness:
  "fst (run (answering [] 0) (postBooks compact_JS (listing None None book1)) stale_world) =
     Json 201 book1 \<and>
   redis_log (snd (run (answering [] 0) (postBooks compact_JS (listing None None book1))
      stale_world)) = [Expire ''books_[object Object]'' 0] \<and>
   redis_log (snd (run (answering [] 0)
      (postBooks compact_JS (listing None None (JArr (map JStr [''Rayuela'', ''Ficciones'']))))
      stale_world)) = [Expire ''books_Rayuela,Ficciones'' 0] \<and>
   fst (run (answering [] 0) (postBooks compact_JS (listing None None (JObj []))) stale_world) =
     Next (BadRequest msg_post) \<and>
   redis_log (snd (run (answering [] 0) (postBooks compact_JS (listing None None (JObj [])))
      stale_world)) = [] \<and>
   cache (snd (run (answering [] 0) (postBooks compact_JS (listing None None (JObj [])))
      stale_world)) = cache stale_world"
proof -
  have created: "createBook (answering [] 0) (store_log stale_world)
      (body (listing None None book1)) = Inr book1 \<and> truthy book1 \<and>
      ToString (Number_toString compact_JS) (body (listing None None book1)) =
        Some ''[object Object]''"
    by (simp add: fixture_defs book1_def)
  have object: "body (listing None None book1) =
        JObj [(''title'', JStr ''Rayuela''), (''year'', JNum 1963)] \<and>
      ''toString'' \<notin> set (map fst [(''title'', JStr ''Rayuela''), (''year'', JNum 1963)])"
    by (simp add: fixture_defs book1_def)
  have strings: "createBook (answering [] 0) (store_log stale_world)
      (body (listing None None (JArr (map JStr [''Rayuela'', ''Ficciones''])))) =
        Inr (JArr (map JStr [''Rayuela'', ''Ficciones''])) \<and>
      truthy (JArr (map JStr [''Rayuela'', ''Ficciones''])) \<and>
      body (listing None None (JArr (map JStr [''Rayuela'', ''Ficciones'']))) =
        JArr (map JStr [''Rayuela'', ''Ficciones''])"
    by (simp add: fixture_defs)
  have turned_down: "createBook (answering [] 0) (store_log stale_world)
      (body (listing None None (JObj []))) = Inr JNull \<and> \<not> truthy JNull"
    by (simp add: fixture_defs)
  from postBooks_expire [where S = "answering [] 0" and w = stale_world and J = compact_JS
      and req = "listing None None book1" and resultBook = book1
      and str = "''[object Object]''"
      and fs = "[(''title'', JStr ''Rayuela''), (''year'', JNum 1963)]"] created object
  have "fst (run (answering [] 0) (postBooks compact_JS (listing None None book1)) stale_world) =
      Json 201 book1 \<and>
    redis_log (snd (run (answering [] 0) (postBooks compact_JS (listing None None book1))
      stale_world)) = redis_log stale_world @ [Expire ''books_[object Object]'' 0]"
    by blast
  moreover
  from postBooks_expire [where S = "answering [] 0" and w = stale_world and J = compact_JS
      and req = "listing None None (JArr (map JStr [''Rayuela'', ''Ficciones'']))"
      and resultBook = "JArr (map JStr [''Rayuela'', ''Ficciones''])"
      and ss = "[''Rayuela'', ''Ficciones'']"] strings
  have "redis_log (snd (run (answering [] 0)
      (postBooks compact_JS (listing None None (JArr (map JStr [''Rayuela'', ''Ficciones''])))) 
      stale_world)) =
      redis_log stale_world @ [Expire (''books_'' @ join_comma [''Rayuela'', ''Ficciones'']) 0]"
    by blast
  moreover
  from postBooks_expire [where S = "answering [] 0" and w = stale_world and J = compact_JS
      and req = "listing None None (JObj [])" and resultBook = JNull
      and str = "[]" and fs = "[]" and ss = "[]"] turned_down
  have "fst (run (answering [] 0) (postBooks compact_JS (listing None None (JObj [])))
      stale_world) = Next (BadRequest msg_post) \<and>
    redis_log (snd (run (answering [] 0) (postBooks compact_JS (listing None None (JObj [])))
      stale_world)) = redis_log stale_world \<and>
    cache (snd (run (answering [] 0) (postBooks compact_JS (listing None None (JObj [])))
      stale_world)) = cache stale_world"
    by blast
  ultimately show ?thesis
    by (simp add: fixture_defs)
qed

text \<open>
  C8 as stated fails for a create body with a property \<^verbatim>\<open>toString\<close> of its own: the
  store returns a created record, and the handler ends in \<^verbatim>\<open>next\<close> with the
  \<^verbatim>\<open>TypeError\<close> of the coercion, having sent no \<^verbatim>\<open>expire\<close> and answered no 201.
\<close>

theorem postBooks_no_key_counterexample:
  "createBook (answering [] 0) (store_log stale_world) (body (listing None None odd_body)) =
     Inr odd_body \<and>
   truthy odd_body \<and>
   fst (run (answering [] 0) (postBooks compact_JS (listing None None odd_body)) stale_world) =
     Next TypeError \<and>
   redis_log (snd (run (answering [] 0) (postBooks compact_JS (listing None None odd_body))
      stale_world)) = []"
  by (simp add: postBooks_def handler_defs fixture_defs)

section \<open>The empty page and the cache\<close>

text \<open>
  C9. On the paginated path with an empty results list, whenever the request ends in
  NotFound the response with the empty results has already been written to the cache:
  the \<^verbatim>\<open>set\<close> and the \<^verbatim>\<open>expire\<close> with 300 seconds were sent before the error, and the
  cache holds the serialization of that response under the request's key with a time to
  live of 300 when the request has failed.
\<close>

theorem NotFound_after_cache_write:
  assumes "truthy_num (limit (pagination req))" "truthy_num (page (pagination req))"
    and "findBooks S (store_log w) (limit (pagination req)) (offset (pagination req)) =
           Inr ([], totalBooks)"
    and "fst (run S (getBooks J req) w) = Next (NotFound m)"
  shows "\<exists>key. cache_key J (body req) = Some key \<and>
    cache (snd (run S (getBooks J req) w)) key =
      Some \<lparr>data = JSON_stringify J (JObj [(''info'', calculatePagination req totalBooks),
                                           (''results'', JArr [])]),
            ttl = Some 300\<rparr> \<and>
    redis_log (snd (run S (getBooks J req) w)) =
      redis_log w @ [Del key, Get key,
        Set key
          (JSON_stringify J (JObj [(''info'', calculatePagination req totalBooks),
                                   (''results'', JArr [])])),
        Expire key 300]"
  using assms
  by (auto simp add: getBooks_def handler_defs split: if_splits option.splits)

theorem NotFound_after_cache_write_witness:
  "fst (run (answering [] 0) (getBooks compact_JS (listing (Some 1) (Some 10) (JObj []))) world0) =
     Next (NotFound msg_no_more_books) \<and>
   cache_key compact_JS (body (listing (Some 1) (Some 10) (JObj []))) =
     Some ''books_[object Object]'' \<and>
   cache (snd (run (answering [] 0) (getBooks compact_JS (listing (Some 1) (Some 10) (JObj [])))
      world0)) ''books_[object Object]'' =
     Some \<lparr>data = json_text (JObj [(''info'', paginationInfo 1 10 0), (''results'', JArr [])]),
           ttl = Some 300\<rparr>"
proof -
  have paged: "truthy_num (limit (pagination (listing (Some 1) (Some 10) (JObj []))))"
    "truthy_num (page (pagination (listing (Some 1) (Some 10) (JObj []))))"
    by (simp_all add: fixture_defs)
  have store: "findBooks (answering [] 0) (store_log world0)
      (limit (pagination (listing (Some 1) (Some 10) (JObj []))))
      (offset (pagination (listing (Some 1) (Some 10) (JObj [])))) = Inr ([], 0)"
    by (simp add: fixture_defs)
  have failed: "fst (run (answering [] 0)
      (getBooks compact_JS (listing (Some 1) (Some 10) (JObj []))) world0) =
      Next (NotFound msg_no_more_books)"
    by (simp add: getBooks_def handler_defs fixture_defs)
  have key: "cache_key compact_JS (body (listing (Some 1) (Some 10) (JObj []))) =
      Some ''books_[object Object]''"
    by (simp add: fixture_defs)
  from NotFound_after_cache_write [OF paged store failed] failed key
  show ?thesis
    by (auto simp add: fixture_defs)
qed

section \<open>A cache hit\<close>

text \<open>
  C10. A paginated request reads the cache after its delete has been answered; whatever
  has run in between, let the world then hold an entry with a non-empty value under the
  request's key, and let redis answer the read. The resumed handler serves the JSON
  deserialization of that value with status 200, or ends in the \<^verbatim>\<open>SyntaxError\<close> of
  \<^verbatim>\<open>JSON.parse\<close>, and asks the store nothing. So when the value is the serialization of a
  response, as getBooks stores it, and the response round-trips through JSON (parsing
  its serialization gives the response back), the payload served is exactly that
  response.
\<close>

theorem cache_hit_serves_stored_response:
  assumes "truthy_num (limit (pagination req))" "truthy_num (page (pagination req))"
    and "cache_key J (body req) = Some key"
    and "\<not> redis_fails w"
    and "\<not> redis_fails w'"
    and "cache w' key = Some e"
    and "data e \<noteq> []"
  shows "run S (fst (step S (getBooks J req) w)) w' =
      (case JSON_parse J (data e) of
         None \<Rightarrow> Next SyntaxError
       | Some cachedResponse \<Rightarrow> Json 200 cachedResponse,
       redis_send (Get key) w') \<and>
    (data e = JSON_stringify J response \<and>
     JSON_parse J (JSON_stringify J response) = Some response \<longrightarrow>
       run S (fst (step S (getBooks J req) w)) w' =
         (Json 200 response, redis_send (Get key) w'))"
  using assms
  by (auto simp add: getBooks_def handler_defs split: option.splits)

text \<open>
  In both interleavings B, asking for page 2, finds what A has stored and serves A's
  page 1.
\<close>

theorem cache_hit_serves_stored_response_witness:
  "fst A_runs = Json 200 (JObj [(''info'', paginationInfo 1 10 1), (''results'', JArr [book1])]) \<and>
   fst (run (answering [book1] 1) (fst B_deletes) (snd A_runs)) =
     Json 200 (JObj [(''info'', paginationInfo 1 10 1), (''results'', JArr [book1])]) \<and>
   store_log (snd (run (answering [book1] 1) (fst B_deletes) (snd A_runs))) =
     [FindBooks (Some 10) (Some 0)] \<and>
   fst A_finishes = Json 200 (JObj [(''info'', paginationInfo 1 10 1), (''results'', JArr [book1])]) \<and>
   fst (run (answering [book1] 1) (fst B_deletes_late) (snd A_finishes)) =
     Json 200 (JObj [(''info'', paginationInfo 1 10 1), (''results'', JArr [book1])]) \<and>
   store_log (snd (run (answering [book1] 1) (fst B_deletes_late) (snd A_finishes))) =
     [FindBooks (Some 10) (Some 0)]"
proof -
  let ?response = "JObj [(''info'', paginationInfo 1 10 1), (''results'', JArr [book1])]"
  let ?entry = "\<lparr>data = JSON_stringify compact_JS ?response, ttl = Some 300\<rparr>"
  have paged: "truthy_num (limit (pagination page2))" "truthy_num (page (pagination page2))"
    by (simp_all add: page2_def fixture_defs)
  have key: "cache_key compact_JS (body page2) = Some ''books_[object Object]''"
    by (simp add: page2_def fixture_defs)
  have roundtrip: "data ?entry = JSON_stringify compact_JS ?response \<and>
      JSON_parse compact_JS (JSON_stringify compact_JS ?response) = Some ?response"
    by code_simp
  have nonempty: "data ?entry \<noteq> []"
    by (simp add: compact_JS_def)
  have B1: "fst B_deletes =
      fst (step (answering [book1] 1) (getBooks compact_JS page2) world0)"
    by (simp add: B_deletes_def)
  have deleted1: "\<not> redis_fails world0"
    by (simp add: fixture_defs redis_fails_def)
  have A1: "fst A_runs = Json 200 ?response"
    "\<not> redis_fails (snd A_runs)"
    "cache (snd A_runs) ''books_[object Object]'' = Some ?entry"
    "store_log (snd A_runs) = [FindBooks (Some 10) (Some 0)]"
    by (simp_all add: A_runs_def B_deletes_def page1_def page2_def getBooks_def handler_defs
        fixture_defs)
  have B2: "fst B_deletes_late =
      fst (step (answering [book1] 1) (getBooks compact_JS page2) (snd A_waits))"
    by (simp add: B_deletes_late_def)
  have deleted2: "\<not> redis_fails (snd A_waits)"
    by (simp add: A_waits_def page1_def getBooks_def handler_defs fixture_defs)
  have A2: "fst A_finishes = Json 200 ?response"
    "\<not> redis_fails (snd A_finishes)"
    "cache (snd A_finishes) ''books_[object Object]'' = Some ?entry"
    "store_log (snd A_finishes) = [FindBooks (Some 10) (Some 0)]"
    by (simp_all add: A_finishes_def B_deletes_late_def A_waits_def page1_def page2_def
        getBooks_def handler_defs fixture_defs)
  from cache_hit_serves_stored_response [OF paged key deleted1 A1(2) A1(3) nonempty,
      where S = "answering [book1] 1" and response = ?response] roundtrip
  have hit1: "run (answering [book1] 1) (fst B_deletes) (snd A_runs) =
      (Json 200 ?response, redis_send (Get ''books_[object Object]'') (snd A_runs))"
    unfolding B1 by blast
  from cache_hit_serves_stored_response [OF paged key deleted2 A2(2) A2(3) nonempty,
      where S = "answering [book1] 1" and response = ?response] roundtrip
  have hit2: "run (answering [book1] 1) (fst B_deletes_late) (snd A_finishes) =
      (Json 200 ?response, redis_send (Get ''books_[object Object]'') (snd A_finishes))"
    unfolding B2 by blast
  from A1 A2 hit1 hit2 show ?thesis
    by simp
qed

end
